theory Spec2Isabelle
  imports Main "HOL-Library.Word"
begin

unbundle bit_operations_syntax

section \<open>Registers, memory and the machine\<close>

text \<open>
  XSPI.h drives memory-mapped peripherals of an 8-bit AVR through pointers to register
  blocks (\<^verbatim>\<open>PORT_t\<close>, \<^verbatim>\<open>SPI_t\<close>, \<^verbatim>\<open>USART_t\<close>). A register is addressed by the
  pointer to its block and its field name; every access is volatile, so the model records
  each one in a trace, in program order.
\<close>

type_synonym u8 = "8 word"
type_synonym u16 = "16 word"
type_synonym u32 = "32 word"
type_synonym ptr = nat

datatype reg =
    PORT_DIR | PORT_DIRSET | PORT_DIRCLR | PORT_OUT
  | SPI_CTRL | SPI_STATUS | SPI_DATA
  | USART_DATA | USART_STATUS | USART_CTRLB | USART_CTRLC
  | USART_BAUDCTRLA | USART_BAUDCTRLB

datatype access = Rd ptr reg u8 | Wr ptr reg u8

text \<open>
  The hardware behind the registers: a state of any type \<open>'h\<close>, a read that returns the
  register's value and the hardware's next state (a read of a data register has side
  effects), and a write.
\<close>

record 'h bus =
  bus_rd :: "ptr \<Rightarrow> reg \<Rightarrow> 'h \<Rightarrow> u8 \<times> 'h"
  bus_wr :: "ptr \<Rightarrow> reg \<Rightarrow> u8 \<Rightarrow> 'h \<Rightarrow> 'h"

text \<open>
  The machine: the hardware, the data memory that the \<^verbatim>\<open>uint8_t *\<close> arguments point
  into (a pointer is an index; an access outside the memory is undefined behaviour), and
  the trace of register accesses so far.
\<close>

record 'h machine =
  hw :: 'h
  ram :: "u8 list"
  trace :: "access list"

datatype fault = DivisionByZero | ShiftOverflow | BufferOverrun

text \<open>
  What a call does: it returns a value, or it is still spinning in a busy-wait loop after
  the number of polls the model was given, or it has run into undefined behaviour.
\<close>

datatype 'a outcome = Returns 'a | Spinning | Undefined fault

definition reg_write :: "'h bus \<Rightarrow> ptr \<Rightarrow> reg \<Rightarrow> u8 \<Rightarrow> 'h machine \<Rightarrow> 'h machine" where
  "reg_write b p r v s = s\<lparr>hw := bus_wr b p r v (hw s), trace := trace s @ [Wr p r v]\<rparr>"

definition reg_read :: "'h bus \<Rightarrow> ptr \<Rightarrow> reg \<Rightarrow> 'h machine \<Rightarrow> u8 \<times> 'h machine" where
  "reg_read b p r s =
     (case bus_rd b p r (hw s) of
        (v, h) \<Rightarrow> (v, s\<lparr>hw := h, trace := trace s @ [Rd p r v]\<rparr>))"

text \<open>
  The busy-wait \<^verbatim>\<open>while(!(x->STATUS & mask));\<close>. It has no timeout in the source; the
  model polls at most \<open>n\<close> times and answers \<open>False\<close> when the flag was still clear at the
  last poll.
\<close>

fun spin_until_set ::
  "'h bus \<Rightarrow> ptr \<Rightarrow> reg \<Rightarrow> u8 \<Rightarrow> nat \<Rightarrow> 'h machine \<Rightarrow> bool \<times> 'h machine" where
  "spin_until_set b p r m 0 s = (False, s)"
| "spin_until_set b p r m (Suc n) s =
     (case reg_read b p r s of
        (v, s') \<Rightarrow> if v AND m \<noteq> 0 then (True, s') else spin_until_set b p r m n s')"

section \<open>What the included headers define\<close>

text \<open>
  \<^verbatim>\<open>../config.h\<close> (\<^verbatim>\<open>F_CPU\<close>) and \<^verbatim>\<open><avr/io.h>\<close> (the bit masks and group
  configurations) are not part of XSPI.h: their constants are parameters of the model.
  The masks are those of 8-bit registers; the clock is an \<^verbatim>\<open>unsigned long\<close>, 32 bits on
  AVR, which is also the type the arithmetic with the \<^verbatim>\<open>uint32_t\<close> baud rate is done in.
\<close>

record io_defs =
  F_CPU :: u32
  SPI_ENABLE_bm :: u8
  SPI_MASTER_bm :: u8
  SPI_CLK2X_bm :: u8
  SPI_DORD_bm :: u8
  SPI_IF_bm :: u8
  USART_CMODE_MSPI_gc :: u8
  USART_RXEN_bm :: u8
  USART_TXEN_bm :: u8
  USART_TXCIF_bm :: u8
  USART_DREIF_bm :: u8

text \<open>
  The enumerations of \<^verbatim>\<open><avr/io.h>\<close>, by the bit pattern of the enumerator. The
  fields \<^verbatim>\<open>spi\<close> and \<^verbatim>\<open>port\<close> of the configuration structure are \<open>cfg_spi\<close> and
  \<open>cfg_port\<close> here, so that \<open>spi\<close> and \<open>port\<close> can name the functions' arguments.
\<close>

type_synonym SPI_MODE_t = u8
type_synonym SPI_PRESCALER_t = u8

record xspi_config_t =
  cfg_spi :: ptr
  cfg_port :: ptr
  mosi_pin :: u8
  miso_pin :: u8
  sck_pin :: u8
  ss_pin :: u8

section \<open>Normal hardware SPI\<close>

text \<open>
  \<^verbatim>\<open>1 << pin\<close> is computed in \<^verbatim>\<open>int\<close>, 16 bits on AVR: the shift is undefined when the
  result does not fit (pin 15 and above). The 8-bit direction registers keep the low
  byte.
\<close>

definition shl1 :: "u8 \<Rightarrow> fault + u8" where
  "shl1 pin = (if unat pin < 15 then Inr (push_bit (unat pin) 1) else Inl ShiftOverflow)"

definition xspi_master_init ::
  "io_defs \<Rightarrow> 'h bus \<Rightarrow> xspi_config_t \<Rightarrow> SPI_MODE_t \<Rightarrow> bool \<Rightarrow> SPI_PRESCALER_t \<Rightarrow> bool \<Rightarrow>
   'h machine \<Rightarrow> unit outcome \<times> 'h machine" where
  "xspi_master_init io b config mode lsb prescaler clk2x s =
     (case shl1 (mosi_pin config) of Inl e \<Rightarrow> (Undefined e, s) | Inr mosi \<Rightarrow>
     (case shl1 (sck_pin config) of Inl e \<Rightarrow> (Undefined e, s) | Inr sck \<Rightarrow>
     (case shl1 (ss_pin config) of Inl e \<Rightarrow> (Undefined e, s) | Inr ss \<Rightarrow>
        (Returns (),
         reg_write b (cfg_spi config) SPI_CTRL
           (SPI_ENABLE_bm io OR SPI_MASTER_bm io OR mode OR prescaler OR
            (if clk2x then SPI_CLK2X_bm io else 0) OR (if lsb then SPI_DORD_bm io else 0))
           (reg_write b (cfg_port config) PORT_DIRSET (mosi OR sck OR ss) s)))))"

definition xspi_slave_init ::
  "io_defs \<Rightarrow> 'h bus \<Rightarrow> xspi_config_t \<Rightarrow> SPI_MODE_t \<Rightarrow> bool \<Rightarrow>
   'h machine \<Rightarrow> unit outcome \<times> 'h machine" where
  "xspi_slave_init io b config mode lsb s =
     (case shl1 (miso_pin config) of Inl e \<Rightarrow> (Undefined e, s) | Inr miso \<Rightarrow>
     (case shl1 (sck_pin config) of
        Inl e \<Rightarrow> (Undefined e, reg_write b (cfg_port config) PORT_DIRSET miso s)
      | Inr sck \<Rightarrow>
     (case shl1 (ss_pin config) of
        Inl e \<Rightarrow> (Undefined e, reg_write b (cfg_port config) PORT_DIRSET miso s)
      | Inr ss \<Rightarrow>
        (Returns (),
         reg_write b (cfg_spi config) SPI_CTRL
           (SPI_ENABLE_bm io OR mode OR (if lsb then SPI_DORD_bm io else 0))
           (reg_write b (cfg_port config) PORT_DIRCLR (sck OR ss)
              (reg_write b (cfg_port config) PORT_DIRSET miso s))))))"

definition xspi_transfer_byte ::
  "io_defs \<Rightarrow> 'h bus \<Rightarrow> nat \<Rightarrow> ptr \<Rightarrow> u8 \<Rightarrow> 'h machine \<Rightarrow> u8 outcome \<times> 'h machine" where
  "xspi_transfer_byte io b n spi val s =
     (case spin_until_set b spi SPI_STATUS (SPI_IF_bm io) n (reg_write b spi SPI_DATA val s) of
        (False, s') \<Rightarrow> (Spinning, s')
      | (True, s') \<Rightarrow> (case reg_read b spi SPI_DATA s' of (v, s'') \<Rightarrow> (Returns v, s'')))"

text \<open>
  The packet loops count the 8-bit \<^verbatim>\<open>len\<close> down to zero and advance the pointer
  \<^verbatim>\<open>data\<close> by one byte in each round.
\<close>

function xspi_send_packet ::
  "io_defs \<Rightarrow> 'h bus \<Rightarrow> nat \<Rightarrow> ptr \<Rightarrow> nat \<Rightarrow> u8 \<Rightarrow> 'h machine \<Rightarrow> unit outcome \<times> 'h machine" where
  "xspi_send_packet io b n spi data len s =
     (if len = 0 then (Returns (), s)
      else if length (ram s) \<le> data then (Undefined BufferOverrun, s)
      else
        case spin_until_set b spi SPI_STATUS (SPI_IF_bm io) n
               (reg_write b spi SPI_DATA (ram s ! data) s) of
          (False, s') \<Rightarrow> (Spinning, s')
        | (True, s') \<Rightarrow> xspi_send_packet io b n spi (data + 1) (len - 1) s')"
  by pat_completeness auto
termination
  by (relation "measure (\<lambda>(io, b, n, spi, data, len, s). unat len)")
    (auto simp: unat_minus_one unat_gt_0)

function xspi_get_packet ::
  "io_defs \<Rightarrow> 'h bus \<Rightarrow> nat \<Rightarrow> ptr \<Rightarrow> nat \<Rightarrow> u8 \<Rightarrow> 'h machine \<Rightarrow> unit outcome \<times> 'h machine" where
  "xspi_get_packet io b n spi data len s =
     (if len = 0 then (Returns (), s)
      else
        case spin_until_set b spi SPI_STATUS (SPI_IF_bm io) n
               (reg_write b spi SPI_DATA 0xFF s) of
          (False, s') \<Rightarrow> (Spinning, s')
        | (True, s') \<Rightarrow>
            (case reg_read b spi SPI_DATA s' of
               (v, s'') \<Rightarrow>
                 if length (ram s'') \<le> data then (Undefined BufferOverrun, s'')
                 else xspi_get_packet io b n spi (data + 1) (len - 1)
                        (s''\<lparr>ram := (ram s'')[data := v]\<rparr>)))"
  by pat_completeness auto
termination
  by (relation "measure (\<lambda>(io, b, n, spi, data, len, s). unat len)")
    (auto simp: unat_minus_one unat_gt_0)

section \<open>USART specific SPI\<close>

text \<open>
  \<^verbatim>\<open>SERIAL_SPI_UBBRVAL(Baud)\<close> is
  \<^verbatim>\<open>((Baud < (F_CPU / 2)) ? ((F_CPU / (2 * Baud)) - 1) : 0)\<close>, in 32-bit unsigned
  arithmetic. The division is not guarded: a divisor of zero is undefined behaviour.
\<close>

definition SERIAL_SPI_UBBRVAL :: "io_defs \<Rightarrow> u32 \<Rightarrow> fault + u32" where
  "SERIAL_SPI_UBBRVAL io Baud =
     (if Baud < F_CPU io div 2
      then (if 2 * Baud = 0 then Inl DivisionByZero else Inr (F_CPU io div (2 * Baud) - 1))
      else Inr 0)"

definition xspi_usart_master_init ::
  "io_defs \<Rightarrow> 'h bus \<Rightarrow> ptr \<Rightarrow> ptr \<Rightarrow> SPI_MODE_t \<Rightarrow> u32 \<Rightarrow>
   'h machine \<Rightarrow> unit outcome \<times> 'h machine" where
  "xspi_usart_master_init io b port usart mode baudrate s =
     (case SERIAL_SPI_UBBRVAL io baudrate of
        Inl e \<Rightarrow> (Undefined e, s)
      | Inr v \<Rightarrow>
          (let baudval = (ucast v :: u16);
               s1 = reg_write b usart USART_BAUDCTRLB (ucast (drop_bit 8 baudval)) s;
               s2 = reg_write b usart USART_BAUDCTRLA (ucast (baudval AND 0xFF)) s1;
               s3 = reg_write b usart USART_CTRLC (USART_CMODE_MSPI_gc io OR mode) s2;
               s4 = reg_write b usart USART_CTRLB (USART_RXEN_bm io OR USART_TXEN_bm io) s3
           in (Returns (), s4)))"

definition xspi_usart_transfer_byte ::
  "io_defs \<Rightarrow> 'h bus \<Rightarrow> nat \<Rightarrow> ptr \<Rightarrow> u8 \<Rightarrow> 'h machine \<Rightarrow> u8 outcome \<times> 'h machine" where
  "xspi_usart_transfer_byte io b n usart val s =
     (case spin_until_set b usart USART_STATUS (USART_TXCIF_bm io) n
             (reg_write b usart USART_DATA val s) of
        (False, s') \<Rightarrow> (Spinning, s')
      | (True, s') \<Rightarrow>
          (case reg_read b usart USART_DATA
                  (reg_write b usart USART_STATUS (USART_TXCIF_bm io) s') of
             (v, s'') \<Rightarrow> (Returns v, s'')))"

definition xspi_usart_send_byte ::
  "io_defs \<Rightarrow> 'h bus \<Rightarrow> nat \<Rightarrow> ptr \<Rightarrow> u8 \<Rightarrow> 'h machine \<Rightarrow> unit outcome \<times> 'h machine" where
  "xspi_usart_send_byte io b n usart val s =
     (case spin_until_set b usart USART_STATUS (USART_DREIF_bm io) n s of
        (False, s') \<Rightarrow> (Spinning, s')
      | (True, s') \<Rightarrow> (Returns (), reg_write b usart USART_DATA val s'))"

definition xspi_usart_get_byte ::
  "io_defs \<Rightarrow> 'h bus \<Rightarrow> nat \<Rightarrow> ptr \<Rightarrow> 'h machine \<Rightarrow> u8 outcome \<times> 'h machine" where
  "xspi_usart_get_byte io b n usart s = xspi_usart_transfer_byte io b n usart 0xFF s"

function xspi_usart_send_packet ::
  "io_defs \<Rightarrow> 'h bus \<Rightarrow> nat \<Rightarrow> ptr \<Rightarrow> nat \<Rightarrow> u8 \<Rightarrow> 'h machine \<Rightarrow> unit outcome \<times> 'h machine" where
  "xspi_usart_send_packet io b n usart data len s =
     (if len = 0 then (Returns (), s)
      else if length (ram s) \<le> data then (Undefined BufferOverrun, s)
      else
        case xspi_usart_send_byte io b n usart (ram s ! data) s of
          (Returns u, s') \<Rightarrow> xspi_usart_send_packet io b n usart (data + 1) (len - 1) s'
        | (Spinning, s') \<Rightarrow> (Spinning, s')
        | (Undefined e, s') \<Rightarrow> (Undefined e, s'))"
  by pat_completeness auto
termination
  by (relation "measure (\<lambda>(io, b, n, usart, data, len, s). unat len)")
    (auto simp: unat_minus_one unat_gt_0)

function xspi_usart_get_packet ::
  "io_defs \<Rightarrow> 'h bus \<Rightarrow> nat \<Rightarrow> ptr \<Rightarrow> nat \<Rightarrow> u8 \<Rightarrow> 'h machine \<Rightarrow> unit outcome \<times> 'h machine" where
  "xspi_usart_get_packet io b n usart data len s =
     (if len = 0 then (Returns (), s)
      else
        case xspi_usart_get_byte io b n usart s of
          (Returns v, s') \<Rightarrow>
            if length (ram s') \<le> data then (Undefined BufferOverrun, s')
            else xspi_usart_get_packet io b n usart (data + 1) (len - 1)
                   (s'\<lparr>ram := (ram s')[data := v]\<rparr>)
        | (Spinning, s') \<Rightarrow> (Spinning, s')
        | (Undefined e, s') \<Rightarrow> (Undefined e, s'))"
  by pat_completeness auto
termination
  by (relation "measure (\<lambda>(io, b, n, usart, data, len, s). unat len)")
    (auto simp: unat_minus_one unat_gt_0)

text \<open>The equations of the packet loops are unfolded one round at a time.\<close>

declare xspi_send_packet.simps [simp del] xspi_get_packet.simps [simp del]
  xspi_usart_send_packet.simps [simp del] xspi_usart_get_packet.simps [simp del]

section \<open>A simulated peripheral\<close>

text \<open>
  Modelled from the spec: the hardware itself, which the header only reaches through its
  registers. The specification describes it in its sections on external interfaces and
  on testable properties:
  \<^item> a port has a direction register; a write of a mask to the set-direction register
    makes the masked pins outputs, a write to the clear-direction register makes them
    inputs, and no other pin changes;
  \<^item> a write to the SPI data register starts shifting the byte out; the byte shifted in
    at the same time is in the data register once the status register shows the
    transfer-complete flag; that flag clears by itself on the next access to the data
    register;
  \<^item> the USART in master SPI mode shifts in the same way, but its transmit-complete flag
    stays set until a one is written to its bit in the status register; its
    data-register-empty flag is set while nothing is being shifted.
  A transfer takes \<open>latency\<close> polls of the status register. What arrives on MISO is the
  byte just sent when the pins are wired as a loopback, and otherwise the next byte that
  the remote side has ready (the idle line reads \<open>0xFF\<close> when it has none).
\<close>

datatype line = Loopback | Remote "u8 list"

fun incoming :: "line \<Rightarrow> u8 \<Rightarrow> u8" where
  "incoming Loopback v = v"
| "incoming (Remote []) v = 0xFF"
| "incoming (Remote (x # xs)) v = x"

fun advance :: "line \<Rightarrow> line" where
  "advance Loopback = Loopback"
| "advance (Remote xs) = Remote (tl xs)"

record shifter =
  latency :: nat
  miso :: line
  mosi :: "u8 list"
  shifting :: "(nat \<times> u8) option"
  flag :: bool
  rxbuf :: u8

definition start :: "u8 \<Rightarrow> shifter \<Rightarrow> shifter" where
  "start v u =
     u\<lparr>shifting := Some (latency u, incoming (miso u) v),
       miso := advance (miso u), mosi := mosi u @ [v]\<rparr>"

fun poll :: "shifter \<Rightarrow> shifter" where
  "poll u =
     (case shifting u of
        None \<Rightarrow> u
      | Some (0, x) \<Rightarrow> u\<lparr>shifting := None, flag := True, rxbuf := x\<rparr>
      | Some (Suc k, x) \<Rightarrow> u\<lparr>shifting := Some (k, x)\<rparr>)"

record port_sim =
  port_dir :: u8
  port_out :: u8

record sim =
  ports :: "ptr \<Rightarrow> port_sim"
  spis :: "ptr \<Rightarrow> shifter"
  spi_ctrl :: "ptr \<Rightarrow> u8"
  usarts :: "ptr \<Rightarrow> shifter"
  usart_regs :: "ptr \<Rightarrow> reg \<Rightarrow> u8"

fun sim_wr :: "io_defs \<Rightarrow> ptr \<Rightarrow> reg \<Rightarrow> u8 \<Rightarrow> sim \<Rightarrow> sim" where
  "sim_wr io p PORT_DIR v h = h\<lparr>ports := (ports h)(p := (ports h p)\<lparr>port_dir := v\<rparr>)\<rparr>"
| "sim_wr io p PORT_DIRSET v h =
     h\<lparr>ports := (ports h)(p := (ports h p)\<lparr>port_dir := port_dir (ports h p) OR v\<rparr>)\<rparr>"
| "sim_wr io p PORT_DIRCLR v h =
     h\<lparr>ports := (ports h)(p := (ports h p)\<lparr>port_dir := port_dir (ports h p) AND NOT v\<rparr>)\<rparr>"
| "sim_wr io p PORT_OUT v h = h\<lparr>ports := (ports h)(p := (ports h p)\<lparr>port_out := v\<rparr>)\<rparr>"
| "sim_wr io p SPI_CTRL v h = h\<lparr>spi_ctrl := (spi_ctrl h)(p := v)\<rparr>"
| "sim_wr io p SPI_STATUS v h = h"
| "sim_wr io p SPI_DATA v h = h\<lparr>spis := (spis h)(p := start v ((spis h p)\<lparr>flag := False\<rparr>))\<rparr>"
| "sim_wr io p USART_DATA v h = h\<lparr>usarts := (usarts h)(p := start v (usarts h p))\<rparr>"
| "sim_wr io p USART_STATUS v h =
     (if v AND USART_TXCIF_bm io \<noteq> 0
      then h\<lparr>usarts := (usarts h)(p := (usarts h p)\<lparr>flag := False\<rparr>)\<rparr>
      else h)"
| "sim_wr io p r v h = h\<lparr>usart_regs := (usart_regs h)(p := (usart_regs h p)(r := v))\<rparr>"

fun sim_rd :: "io_defs \<Rightarrow> ptr \<Rightarrow> reg \<Rightarrow> sim \<Rightarrow> u8 \<times> sim" where
  "sim_rd io p PORT_DIR h = (port_dir (ports h p), h)"
| "sim_rd io p PORT_DIRSET h = (port_dir (ports h p), h)"
| "sim_rd io p PORT_DIRCLR h = (port_dir (ports h p), h)"
| "sim_rd io p PORT_OUT h = (port_out (ports h p), h)"
| "sim_rd io p SPI_CTRL h = (spi_ctrl h p, h)"
| "sim_rd io p SPI_STATUS h =
     (let u = poll (spis h p)
      in (if flag u then SPI_IF_bm io else 0, h\<lparr>spis := (spis h)(p := u)\<rparr>))"
| "sim_rd io p SPI_DATA h =
     (rxbuf (spis h p), h\<lparr>spis := (spis h)(p := (spis h p)\<lparr>flag := False\<rparr>)\<rparr>)"
| "sim_rd io p USART_DATA h = (rxbuf (usarts h p), h)"
| "sim_rd io p USART_STATUS h =
     (let u = poll (usarts h p)
      in ((if flag u then USART_TXCIF_bm io else 0) OR
          (if shifting u = None then USART_DREIF_bm io else 0),
          h\<lparr>usarts := (usarts h)(p := u)\<rparr>))"
| "sim_rd io p r h = (usart_regs h p r, h)"

definition sim_bus :: "io_defs \<Rightarrow> sim bus" where
  "sim_bus io = \<lparr>bus_rd = sim_rd io, bus_wr = sim_wr io\<rparr>"

section \<open>Notions of the specification\<close>

text \<open>
  The closed form of the specification, on natural numbers: the divisor is
  \<open>baseClock / (2 * baudRate) - 1\<close> when \<open>baudRate < baseClock / 2\<close>, and 0 otherwise.
\<close>

definition spec_divisor :: "nat \<Rightarrow> nat \<Rightarrow> nat" where
  "spec_divisor base_clock baud_rate =
     (if baud_rate < base_clock div 2 then base_clock div (2 * baud_rate) - 1 else 0)"

text \<open>
  Reading a trace: the register an access goes to, the accesses that go to a register of
  a port, and the values written to one register, in order.
\<close>

fun access_reg :: "access \<Rightarrow> reg" where
  "access_reg (Rd p r v) = r"
| "access_reg (Wr p r v) = r"

fun is_port_reg :: "reg \<Rightarrow> bool" where
  "is_port_reg PORT_DIR = True"
| "is_port_reg PORT_DIRSET = True"
| "is_port_reg PORT_DIRCLR = True"
| "is_port_reg PORT_OUT = True"
| "is_port_reg r = False"

definition port_accesses :: "access list \<Rightarrow> access list" where
  "port_accesses tr = filter (\<lambda>a. is_port_reg (access_reg a)) tr"

fun writes_to :: "reg \<Rightarrow> access list \<Rightarrow> (ptr \<times> u8) list" where
  "writes_to r [] = []"
| "writes_to r (Rd p r' v # tr) = writes_to r tr"
| "writes_to r (Wr p r' v # tr) = (if r' = r then (p, v) # writes_to r tr else writes_to r tr)"

text \<open>
  The accesses of one completed transfer on a peripheral that needs \<open>k\<close> polls: the write
  to the data register, \<open>k\<close> reads of the status register with the flag clear, and the
  read that shows the flag.
\<close>

definition transfer_events :: "io_defs \<Rightarrow> ptr \<Rightarrow> nat \<Rightarrow> u8 \<Rightarrow> access list" where
  "transfer_events io spi k v =
     Wr spi SPI_DATA v # replicate k (Rd spi SPI_STATUS 0) @ [Rd spi SPI_STATUS (SPI_IF_bm io)]"

section \<open>Concrete targets for evaluation\<close>

text \<open>
  A bus with no hardware behind it (every read gives 0), the constants of an ATxmega
  clocked at 32 MHz, and an idle simulated peripheral with a transfer time of two polls.
\<close>

definition null_bus :: "unit bus" where
  "null_bus = \<lparr>bus_rd = (\<lambda>p r h. (0, h)), bus_wr = (\<lambda>p r v h. h)\<rparr>"

definition xmega_io :: io_defs where
  "xmega_io =
     \<lparr>F_CPU = 32000000, SPI_ENABLE_bm = 0x40, SPI_MASTER_bm = 0x10, SPI_CLK2X_bm = 0x80,
      SPI_DORD_bm = 0x20, SPI_IF_bm = 0x80, USART_CMODE_MSPI_gc = 0xC0,
      USART_RXEN_bm = 0x10, USART_TXEN_bm = 0x08, USART_TXCIF_bm = 0x40,
      USART_DREIF_bm = 0x20\<rparr>"

definition portc_spi :: xspi_config_t where
  "portc_spi =
     \<lparr>cfg_spi = 0x08C0, cfg_port = 0x0640, mosi_pin = 5, miso_pin = 6, sck_pin = 7,
      ss_pin = 4\<rparr>"

definition idle_shifter :: "line \<Rightarrow> shifter" where
  "idle_shifter l =
     \<lparr>latency = 2, miso = l, mosi = [], shifting = None, flag = False, rxbuf = 0\<rparr>"

definition idle_sim :: "line \<Rightarrow> sim" where
  "idle_sim l =
     \<lparr>ports = (\<lambda>p. \<lparr>port_dir = 0, port_out = 0\<rparr>), spis = (\<lambda>p. idle_shifter l),
      spi_ctrl = (\<lambda>p. 0), usarts = (\<lambda>p. idle_shifter l), usart_regs = (\<lambda>p r. 0)\<rparr>"

definition idle_machine :: "line \<Rightarrow> u8 list \<Rightarrow> sim machine" where
  "idle_machine l mem = \<lparr>hw = idle_sim l, ram = mem, trace = []\<rparr>"

text \<open>
  A simulated USART, wired as a loopback, with a transfer time of one poll, and the machine
  that \<open>xspi_usart_send_packet\<close> leaves behind after sending two bytes on it.
\<close>

definition quick_machine :: "u8 list \<Rightarrow> sim machine" where
  "quick_machine mem =
     \<lparr>hw = (idle_sim Loopback)\<lparr>usarts := (\<lambda>p. (idle_shifter Loopback)\<lparr>latency := 1\<rparr>)\<rparr>,
      ram = mem, trace = []\<rparr>"

definition after_send :: "sim machine" where
  "after_send =
     snd (xspi_usart_send_packet xmega_io (sim_bus xmega_io) 3 0x08A0 0 2
            (quick_machine [0x66, 0x77]))"

section \<open>The baud value\<close>

lemma unat_twice:
  fixes baud f :: u32
  assumes "unat baud < unat f div 2"
  shows "unat (2 * baud) = 2 * unat baud"
proof -
  have "unat f < 2 ^ 32"
    using unsigned_less [of f] by simp
  with assms have "unat (2::u32) * unat baud < 2 ^ LENGTH(32)"
    by simp
  then have "unat (2 * baud) = unat (2::u32) * unat baud"
    by (simp only: unat_mult_lem)
  then show ?thesis
    by simp
qed

lemma unat_high_byte: "unat (ucast (drop_bit 8 (w::u16)) :: u8) = unat w div 256"
proof -
  have "unat w < 2 ^ 16"
    using unsigned_less [of w] by simp
  then have "unat w div 256 < 256"
    by simp
  then show ?thesis
    by (simp add: unsigned_ucast_eq unat_drop_bit_eq drop_bit_eq_div take_bit_eq_mod unat_div)
qed

lemma unat_low_byte: "unat (ucast ((w::u16) AND 0xFF) :: u8) = unat w mod 256"
proof -
  have m: "(0xFF::u16) = mask 8"
    by (simp add: mask_eq_exp_minus_1)
  have "ucast (w AND 0xFF) = (ucast w :: u8)"
    unfolding m by (rule bit_word_eqI) (auto simp: bit_simps)
  then show ?thesis
    by (simp add: unsigned_ucast_eq take_bit_eq_mod)
qed

lemma unat_baudval: "unat (ucast (v::u32) :: u16) = unat v mod 65536"
  by (simp add: unsigned_ucast_eq take_bit_eq_mod)

lemma ubbrval_nonzero_baud:
  assumes "baud \<noteq> 0"
  shows "\<exists>v. SERIAL_SPI_UBBRVAL io baud = Inr v \<and>
           unat v = spec_divisor (unat (F_CPU io)) (unat baud)"
proof (cases "baud < F_CPU io div 2")
  case True
  then have lt: "unat baud < unat (F_CPU io) div 2"
    by (simp add: word_less_nat_alt unat_div)
  have tw: "unat (2 * baud) = 2 * unat baud"
    by (rule unat_twice [OF lt])
  from assms have pos: "unat baud \<noteq> 0"
    by (simp add: unat_eq_zero)
  with tw have nz: "2 * baud \<noteq> 0"
    by (metis unat_eq_zero mult_eq_0_iff zero_neq_numeral)
  have "2 * unat baud \<le> unat (F_CPU io)"
    using lt by simp
  then have "1 \<le> unat (F_CPU io) div (2 * unat baud)"
    using pos by (simp add: Suc_le_eq div_greater_zero_iff)
  then have q: "F_CPU io div (2 * baud) \<noteq> 0"
    by (metis unat_div tw unat_eq_zero not_one_le_zero)
  have "unat (F_CPU io div (2 * baud) - 1) = unat (F_CPU io) div (2 * unat baud) - 1"
    by (simp add: unat_minus_one [OF q] unat_div tw)
  with True nz lt show ?thesis
    by (simp add: SERIAL_SPI_UBBRVAL_def spec_divisor_def)
next
  case False
  then have "\<not> unat baud < unat (F_CPU io) div 2"
    by (simp add: word_less_nat_alt unat_div)
  with False show ?thesis
    by (simp add: SERIAL_SPI_UBBRVAL_def spec_divisor_def)
qed

lemma ubbrval_zero_baud:
  "SERIAL_SPI_UBBRVAL io 0 = (if 2 \<le> unat (F_CPU io) then Inl DivisionByZero else Inr 0)"
proof -
  have "(0 < F_CPU io div 2) = (2 \<le> unat (F_CPU io))"
    by (simp add: word_less_nat_alt unat_div div_greater_zero_iff)
  then show ?thesis
    by (simp add: SERIAL_SPI_UBBRVAL_def)
qed

text \<open>
  C2. For every base clock and every requested baud rate above zero,
  \<open>xspi_usart_master_init\<close> returns, and the 16-bit baud value it computes is the
  specification's divisor reduced modulo \<open>2 ^ 16\<close>; its high byte is written to
  \<open>BAUDCTRLB\<close> and its low byte to \<open>BAUDCTRLA\<close> (followed by the writes to \<open>CTRLC\<close> and
  \<open>CTRLB\<close>).
\<close>

theorem usart_master_init_baud_value:
  assumes "baudrate \<noteq> 0"
  shows "\<exists>hi lo s'.
    xspi_usart_master_init io b port usart mode baudrate s = (Returns (), s') \<and>
    trace s' = trace s @
      [Wr usart USART_BAUDCTRLB hi, Wr usart USART_BAUDCTRLA lo,
       Wr usart USART_CTRLC (USART_CMODE_MSPI_gc io OR mode),
       Wr usart USART_CTRLB (USART_RXEN_bm io OR USART_TXEN_bm io)] \<and>
    unat hi = (spec_divisor (unat (F_CPU io)) (unat baudrate) mod 2 ^ 16) div 256 \<and>
    unat lo = (spec_divisor (unat (F_CPU io)) (unat baudrate) mod 2 ^ 16) mod 256"
proof -
  from ubbrval_nonzero_baud [OF assms] obtain v where
    v: "SERIAL_SPI_UBBRVAL io baudrate = Inr v"
    and u: "unat v = spec_divisor (unat (F_CPU io)) (unat baudrate)"
    by blast
  show ?thesis
    by (simp add: xspi_usart_master_init_def v Let_def reg_write_def
        unat_high_byte unat_low_byte unat_baudval u)
qed

theorem usart_master_init_baud_value_witness:
  "(8000000::u32) \<noteq> 0 \<and>
   (\<exists>hi lo s'.
      xspi_usart_master_init xmega_io null_bus 0 1 0 8000000 \<lparr>hw = (), ram = [], trace = []\<rparr>
        = (Returns (), s') \<and>
      trace s' =
        [Wr 1 USART_BAUDCTRLB hi, Wr 1 USART_BAUDCTRLA lo, Wr 1 USART_CTRLC 0xC0,
         Wr 1 USART_CTRLB 0x18] \<and>
      unat hi = 0 \<and> unat lo = 1)"
  using usart_master_init_baud_value
    [of 8000000 xmega_io null_bus 0 1 0 "\<lparr>hw = (), ram = [], trace = []\<rparr>"]
  by (simp add: spec_divisor_def xmega_io_def)

text \<open>
  C10. With a base clock of at least 2 Hz (so that \<open>0 < F_CPU / 2\<close> and a baud rate of 0
  selects the dividing branch), \<open>xspi_usart_master_init\<close> runs into the unguarded
  division by zero exactly when the baud rate is 0, and returns exactly when it is not.
\<close>

theorem usart_master_init_division_by_zero:
  assumes "2 \<le> unat (F_CPU io)"
  shows "(fst (xspi_usart_master_init io b port usart mode baudrate s)
            = Undefined DivisionByZero) = (baudrate = 0) \<and>
         (fst (xspi_usart_master_init io b port usart mode baudrate s)
            = Returns ()) = (baudrate \<noteq> 0)"
proof (cases "baudrate = 0")
  case True
  with assms show ?thesis
    by (simp add: xspi_usart_master_init_def ubbrval_zero_baud)
next
  case False
  from ubbrval_nonzero_baud [OF False] obtain v where
    "SERIAL_SPI_UBBRVAL io baudrate = Inr v"
    by blast
  with False show ?thesis
    by (simp add: xspi_usart_master_init_def Let_def)
qed

theorem usart_master_init_division_by_zero_witness:
  "2 \<le> unat (F_CPU xmega_io) \<and>
   fst (xspi_usart_master_init xmega_io null_bus 0 1 0 0 \<lparr>hw = (), ram = [], trace = []\<rparr>)
     = Undefined DivisionByZero \<and>
   fst (xspi_usart_master_init xmega_io null_bus 0 1 0 9600 \<lparr>hw = (), ram = [], trace = []\<rparr>)
     = Returns ()"
proof -
  have f: "2 \<le> unat (F_CPU xmega_io)"
    by (simp add: xmega_io_def)
  show ?thesis
    using f usart_master_init_division_by_zero
      [OF f, of null_bus 0 1 0 0 "\<lparr>hw = (), ram = [], trace = []\<rparr>"]
      usart_master_init_division_by_zero
      [OF f, of null_bus 0 1 0 9600 "\<lparr>hw = (), ram = [], trace = []\<rparr>"]
    by simp
qed

section \<open>Receiving a byte over the USART\<close>

text \<open>
  C7. \<open>xspi_usart_get_byte\<close> is \<open>xspi_usart_transfer_byte\<close> applied to \<open>0xFF\<close>: on every
  hardware, from every machine state and for every number of polls, the two give the same
  outcome (the same returned byte, or both still spinning) and the same machine, that is
  the same hardware state and the same sequence of register reads and writes.
\<close>

theorem usart_get_byte_is_transfer_of_0xFF:
  "xspi_usart_get_byte io b n usart s = xspi_usart_transfer_byte io b n usart 0xFF s"
  by (simp add: xspi_usart_get_byte_def)

section \<open>Master initialisation\<close>

lemma shl1_defined: "unat pin < 15 \<Longrightarrow> shl1 pin = Inr (push_bit (unat pin) 1)"
  by (simp add: shl1_def)

text \<open>
  C1. For every clock mode, bit order, prescaler and double-speed flag (and every binding
  whose three shifts are defined), \<open>xspi_master_init\<close> returns after two register
  accesses, both of them writes: the pin mask to \<open>DIRSET\<close> and then, to \<open>CTRL\<close>, the
  bitwise OR of the enable bit, the master bit, the mode, the prescaler, the double-speed
  bit when \<open>clk2x\<close> and the bit-order bit when \<open>lsb\<close>. A bit of that value is set only
  when one of these sets it. Nothing is read, and on the simulated peripheral the control
  register holds this value afterwards whatever it, and the rest of the machine \<open>t\<close>, held
  before.
\<close>

theorem master_init_control_value:
  assumes "unat (mosi_pin config) < 15" and "unat (sck_pin config) < 15"
    and "unat (ss_pin config) < 15"
  shows "\<exists>ctrl dirs s'.
    xspi_master_init io b config mode lsb prescaler clk2x s = (Returns (), s') \<and>
    trace s' =
      trace s @ [Wr (cfg_port config) PORT_DIRSET dirs, Wr (cfg_spi config) SPI_CTRL ctrl] \<and>
    ctrl = SPI_ENABLE_bm io OR SPI_MASTER_bm io OR mode OR prescaler OR
             (if clk2x then SPI_CLK2X_bm io else 0) OR (if lsb then SPI_DORD_bm io else 0) \<and>
    (\<forall>i. bit ctrl i =
       (bit (SPI_ENABLE_bm io) i \<or> bit (SPI_MASTER_bm io) i \<or> bit mode i \<or>
        bit prescaler i \<or> clk2x \<and> bit (SPI_CLK2X_bm io) i \<or> lsb \<and> bit (SPI_DORD_bm io) i)) \<and>
    spi_ctrl (hw (snd (xspi_master_init io (sim_bus io) config mode lsb prescaler clk2x t)))
      (cfg_spi config) = ctrl"
  using assms
  by (simp add: xspi_master_init_def shl1_defined reg_write_def sim_bus_def bit_or_iff)

theorem master_init_control_value_witness:
  "unat (mosi_pin portc_spi) < 15 \<and> unat (sck_pin portc_spi) < 15 \<and>
   unat (ss_pin portc_spi) < 15 \<and>
   (\<exists>dirs s'.
      xspi_master_init xmega_io null_bus portc_spi 0x04 False 0x01 True
        \<lparr>hw = (), ram = [], trace = []\<rparr> = (Returns (), s') \<and>
      trace s' = [Wr 0x0640 PORT_DIRSET dirs, Wr 0x08C0 SPI_CTRL 0xD5]) \<and>
   spi_ctrl (hw (snd (xspi_master_init xmega_io (sim_bus xmega_io) portc_spi 0x04 False 0x01
     True \<lparr>hw = idle_sim Loopback, ram = [], trace = []\<rparr>))) 0x08C0 = 0xD5"
proof -
  have p: "unat (mosi_pin portc_spi) < 15" "unat (sck_pin portc_spi) < 15"
    "unat (ss_pin portc_spi) < 15"
    by (simp_all add: portc_spi_def)
  from master_init_control_value [OF p, of xmega_io null_bus "0x04" False "0x01" True
      "\<lparr>hw = (), ram = [], trace = []\<rparr>"
      "\<lparr>hw = idle_sim Loopback, ram = [], trace = []\<rparr>"]
  obtain ctrl dirs s' where
    run: "xspi_master_init xmega_io null_bus portc_spi 0x04 False 0x01 True
        \<lparr>hw = (), ram = [], trace = []\<rparr> = (Returns (), s')"
    and tr: "trace s' = trace \<lparr>hw = (), ram = [], trace = []\<rparr> @
       [Wr (cfg_port portc_spi) PORT_DIRSET dirs, Wr (cfg_spi portc_spi) SPI_CTRL ctrl]"
    and c: "ctrl = SPI_ENABLE_bm xmega_io OR SPI_MASTER_bm xmega_io OR 0x04 OR 0x01 OR
             (if True then SPI_CLK2X_bm xmega_io else 0) OR
             (if False then SPI_DORD_bm xmega_io else 0)"
    and sm: "spi_ctrl (hw (snd (xspi_master_init xmega_io (sim_bus xmega_io) portc_spi 0x04
       False 0x01 True \<lparr>hw = idle_sim Loopback, ram = [], trace = []\<rparr>)))
       (cfg_spi portc_spi) = ctrl"
    by blast
  from c have "ctrl = 0xD5"
    by (simp add: xmega_io_def)
  with p run tr sm show ?thesis
    by (simp add: portc_spi_def)
qed

text \<open>
  C5. For every binding with pin indices 0 to 7 and every state of the simulated port,
  \<open>xspi_master_init\<close> makes one access to the port, a write to its set-direction
  register, after which a bit of the direction register is set exactly when it was set
  before or is the MOSI, SCK or SS bit; nothing else of this port and nothing of any other
  port changes.
\<close>

theorem master_init_directions:
  assumes "unat (mosi_pin config) < 8" and "unat (miso_pin config) < 8"
    and "unat (sck_pin config) < 8" and "unat (ss_pin config) < 8"
  shows "\<exists>dir mask ctrl s'.
    xspi_master_init io (sim_bus io) config mode lsb prescaler clk2x s = (Returns (), s') \<and>
    trace s' =
      trace s @ [Wr (cfg_port config) PORT_DIRSET mask, Wr (cfg_spi config) SPI_CTRL ctrl] \<and>
    ports (hw s') = (ports (hw s))
      (cfg_port config := (ports (hw s) (cfg_port config))\<lparr>port_dir := dir\<rparr>) \<and>
    (\<forall>i. bit dir i =
       (bit (port_dir (ports (hw s) (cfg_port config))) i \<or>
        i = unat (mosi_pin config) \<or> i = unat (sck_pin config) \<or> i = unat (ss_pin config)))"
proof -
  have sh: "shl1 (mosi_pin config) = Inr (push_bit (unat (mosi_pin config)) 1)"
    "shl1 (sck_pin config) = Inr (push_bit (unat (sck_pin config)) 1)"
    "shl1 (ss_pin config) = Inr (push_bit (unat (ss_pin config)) 1)"
    using assms by (simp_all add: shl1_def)
  have b: "bit (push_bit (unat pin) (1::u8)) i = (i = unat pin)"
    if "unat pin < 8" for pin :: u8 and i
    using that by (auto simp: bit_exp_iff)
  show ?thesis
    by (rule exI [of _ "port_dir (ports (hw s) (cfg_port config)) OR
          (push_bit (unat (mosi_pin config)) 1 OR push_bit (unat (sck_pin config)) 1 OR
           push_bit (unat (ss_pin config)) 1)"])
      (use assms in \<open>simp add: xspi_master_init_def sh reg_write_def sim_bus_def bit_or_iff b
        del: push_bit_of_1\<close>)
qed

theorem master_init_directions_witness:
  "unat (mosi_pin portc_spi) < 8 \<and> unat (miso_pin portc_spi) < 8 \<and>
   unat (sck_pin portc_spi) < 8 \<and> unat (ss_pin portc_spi) < 8 \<and>
   port_dir (ports (hw (snd (xspi_master_init xmega_io (sim_bus xmega_io) portc_spi 0 False 0
     False \<lparr>hw = idle_sim Loopback, ram = [], trace = []\<rparr>))) 0x0640) = 0xB0"
proof -
  have p: "unat (mosi_pin portc_spi) < 8" "unat (miso_pin portc_spi) < 8"
    "unat (sck_pin portc_spi) < 8" "unat (ss_pin portc_spi) < 8"
    by (simp_all add: portc_spi_def)
  from master_init_directions [OF p, of xmega_io 0 False 0 False
      "\<lparr>hw = idle_sim Loopback, ram = [], trace = []\<rparr>"]
  obtain dir mask ctrl s' where
    run: "xspi_master_init xmega_io (sim_bus xmega_io) portc_spi 0 False 0 False
            \<lparr>hw = idle_sim Loopback, ram = [], trace = []\<rparr> = (Returns (), s')"
    and pd: "ports (hw s') = (ports (hw \<lparr>hw = idle_sim Loopback, ram = [], trace = []\<rparr>))
      (cfg_port portc_spi := (ports (hw \<lparr>hw = idle_sim Loopback, ram = [], trace = []\<rparr>)
         (cfg_port portc_spi))\<lparr>port_dir := dir\<rparr>)"
    and bits: "\<And>i. bit dir i =
       (bit (port_dir (ports (hw \<lparr>hw = idle_sim Loopback, ram = [], trace = []\<rparr>)
          (cfg_port portc_spi))) i \<or>
        i = unat (mosi_pin portc_spi) \<or> i = unat (sck_pin portc_spi) \<or>
        i = unat (ss_pin portc_spi))"
    by blast
  have "dir = 0xB0"
  proof (rule bit_word_eqI)
    fix i
    assume "i < LENGTH(8)"
    then have "i \<in> {0, 1, 2, 3, 4, 5, 6, 7}"
      by auto
    then show "bit dir i = bit (0xB0 :: u8) i"
      by (auto simp: bits portc_spi_def idle_sim_def)
  qed
  moreover have "cfg_port portc_spi = 0x0640"
    by (simp add: portc_spi_def)
  ultimately show ?thesis
    using p run pd by simp
qed

section \<open>USART initialisation and the port\<close>

text \<open>
  C9. \<open>xspi_usart_master_init\<close> makes no access to a register of a port: whatever the
  hardware, the accesses to port registers recorded in the trace are the same after the
  call as before, and on the simulated peripheral the direction and output registers of
  every port are unchanged.
\<close>

theorem usart_master_init_leaves_port:
  "port_accesses (trace (snd (xspi_usart_master_init io b port usart mode baudrate s)))
     = port_accesses (trace s) \<and>
   ports (hw (snd (xspi_usart_master_init io (sim_bus io) port usart mode baudrate t)))
     = ports (hw t)"
  by (cases "SERIAL_SPI_UBBRVAL io baudrate")
    (simp_all add: xspi_usart_master_init_def Let_def reg_write_def port_accesses_def
      sim_bus_def)

section \<open>Busy-waiting, on every hardware\<close>

lemma writes_to_append: "writes_to r (xs @ ys) = writes_to r xs @ writes_to r ys"
  by (induction r xs rule: writes_to.induct) simp_all

lemma spin_only_reads:
  "\<exists>vs. trace (snd (spin_until_set b p r m n s)) = trace s @ map (Rd p r) vs \<and>
        ram (snd (spin_until_set b p r m n s)) = ram s"
proof (induction n arbitrary: s)
  case 0
  show ?case by simp
next
  case (Suc n)
  obtain v s1 where r: "reg_read b p r s = (v, s1)"
    by (cases "reg_read b p r s")
  then have t1: "trace s1 = trace s @ [Rd p r v]" and m1: "ram s1 = ram s"
    by (auto simp: reg_read_def split: prod.splits)
  from Suc.IH [of s1] obtain vs where
    "trace (snd (spin_until_set b p r m n s1)) = trace s1 @ map (Rd p r) vs"
    "ram (snd (spin_until_set b p r m n s1)) = ram s1"
    by blast
  then have "trace (snd (spin_until_set b p r m n s1)) = trace s @ map (Rd p r) (v # vs)"
    "ram (snd (spin_until_set b p r m n s1)) = ram s"
    by (simp_all add: t1 m1)
  moreover have "trace s1 = trace s @ map (Rd p r) [v]"
    by (simp add: t1)
  ultimately show ?case
    using m1 by (auto simp: r simp del: map_append list.map)
qed

lemma writes_to_reads: "writes_to r (map (Rd p q) vs) = []"
  by (induction vs) simp_all

lemma spin_writes_nothing:
  "writes_to q (trace (snd (spin_until_set b p r m n s))) = writes_to q (trace s)"
  using spin_only_reads [of b p r m n s] by (auto simp: writes_to_append writes_to_reads)

section \<open>Transfers on the simulated SPI peripheral\<close>

lemma sim_status_read:
  "reg_read (sim_bus io) p SPI_STATUS s = (v, s') \<Longrightarrow>
     v = (if flag (poll (spis (hw s) p)) then SPI_IF_bm io else 0) \<and>
     spis (hw s') p = poll (spis (hw s) p) \<and>
     trace s' = trace s @ [Rd p SPI_STATUS v] \<and> ram s' = ram s"
  by (auto simp: reg_read_def sim_bus_def Let_def simp del: poll.simps)

lemma sim_spi_wait:
  assumes "SPI_IF_bm io \<noteq> 0"
  shows "shifting (spis (hw s) p) = Some (k, x) \<Longrightarrow> \<not> flag (spis (hw s) p) \<Longrightarrow> k < n \<Longrightarrow>
    \<exists>s'. spin_until_set (sim_bus io) p SPI_STATUS (SPI_IF_bm io) n s = (True, s') \<and>
      trace s' = trace s @ replicate k (Rd p SPI_STATUS 0) @ [Rd p SPI_STATUS (SPI_IF_bm io)] \<and>
      ram s' = ram s \<and>
      spis (hw s') p = (spis (hw s) p)\<lparr>shifting := None, flag := True, rxbuf := x\<rparr>"
proof (induction k arbitrary: n s)
  case 0
  then obtain n' where n: "n = Suc n'" by (cases n) auto
  obtain v s1 where r: "reg_read (sim_bus io) p SPI_STATUS s = (v, s1)"
    by (cases "reg_read (sim_bus io) p SPI_STATUS s")
  from sim_status_read [OF r] 0 assms show ?case
    by (simp add: n r)
next
  case (Suc k)
  then obtain n' where n: "n = Suc n'" by (cases n) auto
  obtain v s1 where r: "reg_read (sim_bus io) p SPI_STATUS s = (v, s1)"
    by (cases "reg_read (sim_bus io) p SPI_STATUS s")
  from sim_status_read [OF r] Suc.prems
  have v: "v = 0" and s1: "spis (hw s1) p = (spis (hw s) p)\<lparr>shifting := Some (k, x)\<rparr>"
    and t1: "trace s1 = trace s @ [Rd p SPI_STATUS 0]" and m1: "ram s1 = ram s"
    by simp_all
  from Suc.prems s1 n
  have "\<exists>s'. spin_until_set (sim_bus io) p SPI_STATUS (SPI_IF_bm io) n' s1 = (True, s') \<and>
      trace s' = trace s1 @ replicate k (Rd p SPI_STATUS 0) @ [Rd p SPI_STATUS (SPI_IF_bm io)] \<and>
      ram s' = ram s1 \<and>
      spis (hw s') p = (spis (hw s1) p)\<lparr>shifting := None, flag := True, rxbuf := x\<rparr>"
    by (intro Suc.IH) simp_all
  then show ?case
    by (simp add: n r v s1 t1 m1)
qed

lemma sim_spi_exchange:
  assumes "SPI_IF_bm io \<noteq> 0" and "latency (spis (hw s) p) < n"
  shows "\<exists>s'. spin_until_set (sim_bus io) p SPI_STATUS (SPI_IF_bm io) n
                 (reg_write (sim_bus io) p SPI_DATA v s) = (True, s') \<and>
      trace s' = trace s @ transfer_events io p (latency (spis (hw s) p)) v \<and>
      ram s' = ram s \<and>
      spis (hw s') p = (spis (hw s) p)
        \<lparr>miso := advance (miso (spis (hw s) p)), mosi := mosi (spis (hw s) p) @ [v],
         shifting := None, flag := True, rxbuf := incoming (miso (spis (hw s) p)) v\<rparr>"
proof -
  let ?s1 = "reg_write (sim_bus io) p SPI_DATA v s"
  have u1: "spis (hw ?s1) p = start v ((spis (hw s) p)\<lparr>flag := False\<rparr>)"
    and t1: "trace ?s1 = trace s @ [Wr p SPI_DATA v]" and m1: "ram ?s1 = ram s"
    by (simp_all add: reg_write_def sim_bus_def)
  have "shifting (spis (hw ?s1) p) = Some (latency (spis (hw s) p), incoming (miso (spis (hw s) p)) v)"
    and "\<not> flag (spis (hw ?s1) p)"
    by (simp_all add: u1 start_def)
  from sim_spi_wait [OF assms(1) this assms(2)] show ?thesis
    by (simp add: u1 t1 m1 start_def transfer_events_def)
qed

lemma sim_data_read:
  "reg_read (sim_bus io) p SPI_DATA s = (v, s') \<Longrightarrow>
     v = rxbuf (spis (hw s) p) \<and> spis (hw s') p = (spis (hw s) p)\<lparr>flag := False\<rparr> \<and>
     trace s' = trace s @ [Rd p SPI_DATA v] \<and> ram s' = ram s"
  by (auto simp: reg_read_def sim_bus_def)

text \<open>
  C8. On a simulated peripheral wired as a loopback, whatever its transfer time (given
  more polls than that), \<open>xspi_transfer_byte\<close> returns, and returns the byte it was given:
  it writes the byte to the data register, polls the status register until the flag
  shows, and reads the byte back from the data register.
\<close>

theorem transfer_byte_loopback:
  assumes "SPI_IF_bm io \<noteq> 0" and "miso (spis (hw s) spi) = Loopback"
    and "latency (spis (hw s) spi) < n"
  shows "\<exists>s'. xspi_transfer_byte io (sim_bus io) n spi val s = (Returns val, s') \<and>
    trace s' = trace s @ transfer_events io spi (latency (spis (hw s) spi)) val @
      [Rd spi SPI_DATA val]"
proof -
  from sim_spi_exchange [OF assms(1,3), of val] obtain s1 where
    w: "spin_until_set (sim_bus io) spi SPI_STATUS (SPI_IF_bm io) n
          (reg_write (sim_bus io) spi SPI_DATA val s) = (True, s1)"
    and t1: "trace s1 = trace s @ transfer_events io spi (latency (spis (hw s) spi)) val"
    and u1: "spis (hw s1) spi = (spis (hw s) spi)
        \<lparr>miso := advance (miso (spis (hw s) spi)), mosi := mosi (spis (hw s) spi) @ [val],
         shifting := None, flag := True, rxbuf := incoming (miso (spis (hw s) spi)) val\<rparr>"
    by blast
  obtain v s2 where r: "reg_read (sim_bus io) spi SPI_DATA s1 = (v, s2)"
    by (cases "reg_read (sim_bus io) spi SPI_DATA s1")
  from sim_data_read [OF r] u1 assms(2) have "v = val" and "trace s2 = trace s1 @ [Rd spi SPI_DATA val]"
    by simp_all
  then show ?thesis
    by (simp add: xspi_transfer_byte_def w r t1)
qed

theorem transfer_byte_loopback_witness:
  "SPI_IF_bm xmega_io \<noteq> 0 \<and>
   miso (spis (hw (idle_machine Loopback [])) 0x08C0) = Loopback \<and>
   latency (spis (hw (idle_machine Loopback [])) 0x08C0) < 3 \<and>
   (\<exists>s'. xspi_transfer_byte xmega_io (sim_bus xmega_io) 3 0x08C0 0xA5 (idle_machine Loopback [])
            = (Returns 0xA5, s') \<and>
         trace s' =
           [Wr 0x08C0 SPI_DATA 0xA5, Rd 0x08C0 SPI_STATUS 0, Rd 0x08C0 SPI_STATUS 0,
            Rd 0x08C0 SPI_STATUS 0x80, Rd 0x08C0 SPI_DATA 0xA5])"
proof -
  have h: "SPI_IF_bm xmega_io \<noteq> 0"
    "miso (spis (hw (idle_machine Loopback [])) 0x08C0) = Loopback"
    "latency (spis (hw (idle_machine Loopback [])) 0x08C0) < 3"
    by (simp_all add: xmega_io_def idle_machine_def idle_sim_def idle_shifter_def)
  have l: "latency (spis (hw (idle_machine Loopback [])) 0x08C0) = 2"
    by (simp add: idle_machine_def idle_sim_def idle_shifter_def)
  have e: "transfer_events xmega_io 0x08C0 2 0xA5 =
      [Wr 0x08C0 SPI_DATA 0xA5, Rd 0x08C0 SPI_STATUS 0, Rd 0x08C0 SPI_STATUS 0,
       Rd 0x08C0 SPI_STATUS 0x80]"
    by (simp add: transfer_events_def xmega_io_def numeral_2_eq_2)
  have t0: "trace (idle_machine Loopback []) = []"
    by (simp add: idle_machine_def)
  from transfer_byte_loopback [OF h, of "0xA5"] h show ?thesis
    by (simp add: l e t0)
qed

section \<open>Packets\<close>

subsection \<open>On the simulated SPI peripheral\<close>

lemma writes_to_transfer_events [simp]:
  "writes_to SPI_DATA (transfer_events io p k v) = [(p, v)]"
proof -
  have "writes_to SPI_DATA (replicate k (Rd p SPI_STATUS 0)) = []"
    by (induction k) simp_all
  then show ?thesis
    by (simp add: transfer_events_def writes_to_append)
qed

lemma writes_to_sent:
  "writes_to SPI_DATA (concat (map (transfer_events io p k) bs)) = map (Pair p) bs"
  by (induction bs) (simp_all add: writes_to_append)

lemma writes_to_received:
  "writes_to SPI_DATA (concat (map (\<lambda>x. transfer_events io p k v @ [Rd p SPI_DATA x]) bs))
     = replicate (length bs) (p, v)"
  by (induction bs) (simp_all add: writes_to_append)

lemma sim_send_packet:
  assumes "SPI_IF_bm io \<noteq> 0"
  shows "unat len = k \<Longrightarrow> latency (spis (hw s) p) < n \<Longrightarrow> data + k \<le> length (ram s) \<Longrightarrow>
    \<exists>s'. xspi_send_packet io (sim_bus io) n p data len s = (Returns (), s') \<and>
      trace s' = trace s @
        concat (map (transfer_events io p (latency (spis (hw s) p))) (take k (drop data (ram s)))) \<and>
      ram s' = ram s \<and>
      mosi (spis (hw s') p) = mosi (spis (hw s) p) @ take k (drop data (ram s)) \<and>
      latency (spis (hw s') p) = latency (spis (hw s) p)"
proof (induction k arbitrary: len data s)
  case 0
  then have "len = 0"
    by (simp add: unat_eq_zero)
  then show ?case
    by (simp add: xspi_send_packet.simps)
next
  case (Suc k)
  from Suc.prems have nz: "len \<noteq> 0"
    by auto
  with Suc.prems have k: "unat (len - 1) = k"
    by (simp add: unat_minus_one)
  from Suc.prems have inb: "data < length (ram s)"
    by simp
  let ?L = "latency (spis (hw s) p)"
  from sim_spi_exchange [OF assms Suc.prems(2), of "ram s ! data"] obtain s1 where
    w: "spin_until_set (sim_bus io) p SPI_STATUS (SPI_IF_bm io) n
          (reg_write (sim_bus io) p SPI_DATA (ram s ! data) s) = (True, s1)"
    and t1: "trace s1 = trace s @ transfer_events io p ?L (ram s ! data)"
    and m1: "ram s1 = ram s"
    and u1: "spis (hw s1) p = (spis (hw s) p)
        \<lparr>miso := advance (miso (spis (hw s) p)), mosi := mosi (spis (hw s) p) @ [ram s ! data],
         shifting := None, flag := True, rxbuf := incoming (miso (spis (hw s) p)) (ram s ! data)\<rparr>"
    by blast
  have l1: "latency (spis (hw s1) p) = ?L"
    by (simp add: u1)
  from Suc.prems have "latency (spis (hw s1) p) < n" and "(data + 1) + k \<le> length (ram s1)"
    by (simp_all add: l1 m1)
  from Suc.IH [OF k this] obtain s' where
    run: "xspi_send_packet io (sim_bus io) n p (data + 1) (len - 1) s1 = (Returns (), s')"
    and t': "trace s' = trace s1 @
        concat (map (transfer_events io p ?L) (take k (drop (data + 1) (ram s1))))"
    and m': "ram s' = ram s1"
    and o': "mosi (spis (hw s') p) = mosi (spis (hw s1) p) @ take k (drop (data + 1) (ram s1))"
    and l': "latency (spis (hw s') p) = latency (spis (hw s1) p)"
    by (auto simp: l1)
  have bytes: "take (Suc k) (drop data (ram s)) = ram s ! data # take k (drop (data + 1) (ram s))"
    using inb by (simp add: Cons_nth_drop_Suc [symmetric])
  have "xspi_send_packet io (sim_bus io) n p data len s =
      xspi_send_packet io (sim_bus io) n p (data + 1) (len - 1) s1"
    using nz inb by (subst xspi_send_packet.simps) (simp add: w)
  with run show ?case
    by (simp add: t' t1 m' m1 o' u1 l' l1 bytes)
qed

lemma sim_get_packet:
  assumes "SPI_IF_bm io \<noteq> 0"
  shows "unat len = length bs \<Longrightarrow> latency (spis (hw s) p) < n \<Longrightarrow>
    miso (spis (hw s) p) = Remote (bs @ rest) \<Longrightarrow> data + length bs \<le> length (ram s) \<Longrightarrow>
    \<exists>s'. xspi_get_packet io (sim_bus io) n p data len s = (Returns (), s') \<and>
      trace s' = trace s @
        concat (map (\<lambda>x. transfer_events io p (latency (spis (hw s) p)) 0xFF @ [Rd p SPI_DATA x]) bs) \<and>
      ram s' = take data (ram s) @ bs @ drop (data + length bs) (ram s) \<and>
      miso (spis (hw s') p) = Remote rest \<and>
      latency (spis (hw s') p) = latency (spis (hw s) p)"
proof (induction bs arbitrary: len data s)
  case Nil
  then have "len = 0"
    by (simp add: unat_eq_zero)
  with Nil show ?case
    by (simp add: xspi_get_packet.simps)
next
  case (Cons x bs)
  from Cons.prems have nz: "len \<noteq> 0"
    by auto
  with Cons.prems have k: "unat (len - 1) = length bs"
    by (simp add: unat_minus_one)
  from Cons.prems have inb: "data < length (ram s)"
    by simp
  let ?L = "latency (spis (hw s) p)"
  from sim_spi_exchange [OF assms Cons.prems(2), of "0xFF"] obtain s1 where
    w: "spin_until_set (sim_bus io) p SPI_STATUS (SPI_IF_bm io) n
          (reg_write (sim_bus io) p SPI_DATA 0xFF s) = (True, s1)"
    and t1: "trace s1 = trace s @ transfer_events io p ?L 0xFF"
    and m1: "ram s1 = ram s"
    and u1: "spis (hw s1) p = (spis (hw s) p)
        \<lparr>miso := advance (miso (spis (hw s) p)), mosi := mosi (spis (hw s) p) @ [0xFF],
         shifting := None, flag := True, rxbuf := incoming (miso (spis (hw s) p)) 0xFF\<rparr>"
    by blast
  obtain v s2 where r: "reg_read (sim_bus io) p SPI_DATA s1 = (v, s2)"
    by (cases "reg_read (sim_bus io) p SPI_DATA s1")
  from sim_data_read [OF r] u1 Cons.prems(3)
  have v: "v = x" and u2: "spis (hw s2) p = (spis (hw s1) p)\<lparr>flag := False\<rparr>"
    and t2: "trace s2 = trace s1 @ [Rd p SPI_DATA x]" and m2: "ram s2 = ram s"
    by (simp_all add: m1)
  let ?s3 = "s2\<lparr>ram := (ram s2)[data := x]\<rparr>"
  have l2: "latency (spis (hw s2) p) = ?L"
    and mi2: "miso (spis (hw s2) p) = Remote (bs @ rest)"
    using Cons.prems(3) by (simp_all add: u2 u1)
  have l3: "latency (spis (hw ?s3) p) = ?L"
    and mi3: "miso (spis (hw ?s3) p) = Remote (bs @ rest)"
    by (simp_all add: l2 mi2)
  from Cons.prems have "latency (spis (hw ?s3) p) < n"
    and "(data + 1) + length bs \<le> length (ram ?s3)"
    by (simp_all add: l2 m2)
  from Cons.IH [OF k this(1) mi3 this(2)] obtain s' where
    run: "xspi_get_packet io (sim_bus io) n p (data + 1) (len - 1) ?s3 = (Returns (), s')"
    and t': "trace s' = trace ?s3 @
        concat (map (\<lambda>x. transfer_events io p ?L 0xFF @ [Rd p SPI_DATA x]) bs)"
    and m': "ram s' = take (data + 1) (ram ?s3) @ bs @ drop (data + 1 + length bs) (ram ?s3)"
    and mi': "miso (spis (hw s') p) = Remote rest"
    and l': "latency (spis (hw s') p) = latency (spis (hw ?s3) p)"
    by (auto simp: l2)
  have tk: "take (Suc data) ((ram s)[data := x]) = take data (ram s) @ [x]"
    using inb by (simp add: take_Suc_conv_app_nth)
  have "xspi_get_packet io (sim_bus io) n p data len s =
      xspi_get_packet io (sim_bus io) n p (data + 1) (len - 1) ?s3"
    using nz inb by (subst xspi_get_packet.simps) (simp add: w r v m2)
  with run show ?case
    by (simp add: t' t2 t1 m' m2 mi' l' l2 tk)
qed

subsection \<open>The bytes written, on every hardware\<close>

lemma spin_keeps_ram: "ram (snd (spin_until_set b p r m n s)) = ram s"
  using spin_only_reads [of b p r m n s] by blast

lemma send_packet_writes:
  "unat len = k \<Longrightarrow> xspi_send_packet io b n spi data len s = (Returns (), s') \<Longrightarrow>
     writes_to SPI_DATA (trace s') =
       writes_to SPI_DATA (trace s) @ map (Pair spi) (take k (drop data (ram s))) \<and>
     ram s' = ram s"
proof (induction k arbitrary: len data s)
  case 0
  then have "len = 0"
    by (simp add: unat_eq_zero)
  with 0 show ?case
    by (simp add: xspi_send_packet.simps)
next
  case (Suc k)
  from Suc.prems have nz: "len \<noteq> 0"
    by auto
  with Suc.prems have k: "unat (len - 1) = k"
    by (simp add: unat_minus_one)
  let ?s0 = "reg_write b spi SPI_DATA (ram s ! data) s"
  obtain ok s1 where sp: "spin_until_set b spi SPI_STATUS (SPI_IF_bm io) n ?s0 = (ok, s1)"
    by (cases "spin_until_set b spi SPI_STATUS (SPI_IF_bm io) n ?s0")
  from Suc.prems(2) nz have inb: "data < length (ram s)"
    by (subst (asm) xspi_send_packet.simps) (auto split: if_splits)
  from Suc.prems(2) nz inb sp have ok: "ok"
    and run: "xspi_send_packet io b n spi (data + 1) (len - 1) s1 = (Returns (), s')"
    by (subst (asm) xspi_send_packet.simps, cases ok, simp_all)+
  have "writes_to SPI_DATA (trace s1) = writes_to SPI_DATA (trace ?s0)"
    using spin_writes_nothing [of SPI_DATA b spi SPI_STATUS "SPI_IF_bm io" n ?s0]
    by (simp add: sp)
  then have w1:
    "writes_to SPI_DATA (trace s1) = writes_to SPI_DATA (trace s) @ [(spi, ram s ! data)]"
    by (simp add: reg_write_def writes_to_append)
  have "ram s1 = ram ?s0"
    using spin_keeps_ram [of b spi SPI_STATUS "SPI_IF_bm io" n ?s0]
    by (simp add: sp)
  then have m1: "ram s1 = ram s"
    by (simp add: reg_write_def)
  have bytes: "take (Suc k) (drop data (ram s)) = ram s ! data # take k (drop (data + 1) (ram s))"
    using inb by (simp add: Cons_nth_drop_Suc [symmetric])
  from Suc.IH [OF k run] show ?case
    by (simp add: w1 m1 bytes)
qed

lemma get_packet_writes:
  "unat len = k \<Longrightarrow> xspi_get_packet io b n spi data len s = (Returns (), s') \<Longrightarrow>
     writes_to SPI_DATA (trace s') = writes_to SPI_DATA (trace s) @ replicate k (spi, 0xFF)"
proof (induction k arbitrary: len data s)
  case 0
  then have "len = 0"
    by (simp add: unat_eq_zero)
  with 0 show ?case
    by (simp add: xspi_get_packet.simps)
next
  case (Suc k)
  from Suc.prems have nz: "len \<noteq> 0"
    by auto
  with Suc.prems have k: "unat (len - 1) = k"
    by (simp add: unat_minus_one)
  let ?s0 = "reg_write b spi SPI_DATA 0xFF s"
  obtain ok s1 where sp: "spin_until_set b spi SPI_STATUS (SPI_IF_bm io) n ?s0 = (ok, s1)"
    by (cases "spin_until_set b spi SPI_STATUS (SPI_IF_bm io) n ?s0")
  obtain v s2 where rd: "reg_read b spi SPI_DATA s1 = (v, s2)"
    by (cases "reg_read b spi SPI_DATA s1")
  from Suc.prems(2) nz sp rd
  have run: "xspi_get_packet io b n spi (data + 1) (len - 1) (s2\<lparr>ram := (ram s2)[data := v]\<rparr>)
      = (Returns (), s')"
    by (subst (asm) xspi_get_packet.simps, cases ok) (simp_all split: if_splits)
  have "writes_to SPI_DATA (trace s1) = writes_to SPI_DATA (trace ?s0)"
    using spin_writes_nothing [of SPI_DATA b spi SPI_STATUS "SPI_IF_bm io" n ?s0]
    by (simp add: sp)
  then have w1: "writes_to SPI_DATA (trace s1) = writes_to SPI_DATA (trace s) @ [(spi, 0xFF)]"
    by (simp add: reg_write_def writes_to_append)
  from rd have w2: "writes_to SPI_DATA (trace s2) = writes_to SPI_DATA (trace s1)"
    by (auto simp: reg_read_def writes_to_append split: prod.splits)
  from Suc.IH [OF k run] show ?case
    by (simp add: w1 w2 replicate_append_same)
qed

subsection \<open>Sending and receiving\<close>

text \<open>
  C4. On the simulated peripheral (any transfer time below the poll budget), for every
  memory, every pointer and every length whose bytes lie in the memory,
  \<open>xspi_send_packet\<close> returns; its accesses are, byte after byte in buffer order, the write
  of the byte to the data register followed by the polls of the status register up to the
  one that shows the flag, so the next byte is written only after the transfer of the one
  before is complete; the data register is written with exactly these bytes, and they are
  what the remote side has received. With length 0 the call returns the machine as it
  was, on every hardware: no register is accessed. And on every hardware on which the
  call returns, the values written to the data register are the bytes of the buffer, in
  order.
\<close>

theorem send_packet_in_order:
  assumes "SPI_IF_bm io \<noteq> 0" and "latency (spis (hw s) spi) < n"
    and "data + unat len \<le> length (ram s)"
  shows "(\<exists>s'. xspi_send_packet io (sim_bus io) n spi data len s = (Returns (), s') \<and>
      trace s' = trace s @
        concat (map (transfer_events io spi (latency (spis (hw s) spi)))
                  (take (unat len) (drop data (ram s)))) \<and>
      writes_to SPI_DATA (trace s') =
        writes_to SPI_DATA (trace s) @ map (Pair spi) (take (unat len) (drop data (ram s))) \<and>
      mosi (spis (hw s') spi) = mosi (spis (hw s) spi) @ take (unat len) (drop data (ram s)) \<and>
      ram s' = ram s) \<and>
    xspi_send_packet io b m spi' data' 0 t = (Returns (), t) \<and>
    (xspi_send_packet io b m spi' data' len' t = (Returns (), t') \<longrightarrow>
       writes_to SPI_DATA (trace t') =
         writes_to SPI_DATA (trace t) @ map (Pair spi') (take (unat len') (drop data' (ram t))))"
proof -
  from sim_send_packet [OF assms(1) refl assms(2,3)] obtain s' where
    "xspi_send_packet io (sim_bus io) n spi data len s = (Returns (), s')"
    "trace s' = trace s @
        concat (map (transfer_events io spi (latency (spis (hw s) spi)))
                  (take (unat len) (drop data (ram s))))"
    "ram s' = ram s"
    "mosi (spis (hw s') spi) = mosi (spis (hw s) spi) @ take (unat len) (drop data (ram s))"
    by blast
  moreover have "xspi_send_packet io b m spi' data' 0 t = (Returns (), t)"
    by (simp add: xspi_send_packet.simps)
  moreover have "writes_to SPI_DATA (trace t') =
      writes_to SPI_DATA (trace t) @ map (Pair spi') (take (unat len') (drop data' (ram t)))"
    if "xspi_send_packet io b m spi' data' len' t = (Returns (), t')"
    using send_packet_writes [OF refl that] by simp
  ultimately show ?thesis
    by (simp add: writes_to_append writes_to_sent)
qed

theorem send_packet_in_order_witness:
  "SPI_IF_bm xmega_io \<noteq> 0 \<and>
   latency (spis (hw (idle_machine Loopback [0x11, 0x22, 0x33])) 0x08C0) < 3 \<and>
   1 + unat (2::u8) \<le> length (ram (idle_machine Loopback [0x11, 0x22, 0x33])) \<and>
   (\<exists>s'. xspi_send_packet xmega_io (sim_bus xmega_io) 3 0x08C0 1 2
            (idle_machine Loopback [0x11, 0x22, 0x33]) = (Returns (), s') \<and>
         trace s' =
           [Wr 0x08C0 SPI_DATA 0x22, Rd 0x08C0 SPI_STATUS 0, Rd 0x08C0 SPI_STATUS 0,
            Rd 0x08C0 SPI_STATUS 0x80,
            Wr 0x08C0 SPI_DATA 0x33, Rd 0x08C0 SPI_STATUS 0, Rd 0x08C0 SPI_STATUS 0,
            Rd 0x08C0 SPI_STATUS 0x80] \<and>
         mosi (spis (hw s') 0x08C0) = [0x22, 0x33]) \<and>
   xspi_send_packet xmega_io null_bus 3 0x08C0 0 0 \<lparr>hw = (), ram = [], trace = []\<rparr>
     = (Returns (), \<lparr>hw = (), ram = [], trace = []\<rparr>)"
proof -
  let ?s = "idle_machine Loopback [0x11, 0x22, 0x33]"
  have h: "SPI_IF_bm xmega_io \<noteq> 0" "latency (spis (hw ?s) 0x08C0) < 3"
    "1 + unat (2::u8) \<le> length (ram ?s)"
    by (simp_all add: xmega_io_def idle_machine_def idle_sim_def idle_shifter_def)
  have l: "latency (spis (hw ?s) 0x08C0) = 2" "mosi (spis (hw ?s) 0x08C0) = []"
    "trace ?s = []" "ram ?s = [0x11, 0x22, 0x33]"
    by (simp_all add: idle_machine_def idle_sim_def idle_shifter_def)
  have e: "transfer_events xmega_io 0x08C0 2 v =
      [Wr 0x08C0 SPI_DATA v, Rd 0x08C0 SPI_STATUS 0, Rd 0x08C0 SPI_STATUS 0,
       Rd 0x08C0 SPI_STATUS 0x80]" for v
    by (simp add: transfer_events_def xmega_io_def numeral_2_eq_2)
  have tk: "take (unat (2::u8)) (drop 1 [0x11, 0x22, 0x33 :: u8]) = [0x22, 0x33]"
    by simp
  from send_packet_in_order [OF h, where b = null_bus and m = 3 and spi' = "0x08C0"
      and data' = 0 and t = "\<lparr>hw = (), ram = [], trace = []\<rparr>" and len' = 0
      and t' = "\<lparr>hw = (), ram = [], trace = []\<rparr>"] h
  show ?thesis
    by (auto simp: l e tk)
qed

text \<open>
  C3. On a simulated peripheral (any transfer time below the poll budget) whose remote
  side has the bytes \<open>bs\<close> ready, \<open>xspi_get_packet\<close> of length \<open>length bs\<close> returns; the
  buffer then holds \<open>bs\<close> in order and the memory around it is unchanged; the data
  register has been written exactly \<open>length bs\<close> times, each time with \<open>0xFF\<close>, once before
  each wait and read. On every hardware on which the call returns, the values written to
  the data register are \<open>0xFF\<close>, once for each byte of the length.
\<close>

theorem get_packet_fills_buffer:
  assumes "SPI_IF_bm io \<noteq> 0" and "latency (spis (hw s) spi) < n"
    and "miso (spis (hw s) spi) = Remote bs" and "length bs = unat len"
    and "data + unat len \<le> length (ram s)"
  shows "(\<exists>s'. xspi_get_packet io (sim_bus io) n spi data len s = (Returns (), s') \<and>
      take (unat len) (drop data (ram s')) = bs \<and>
      ram s' = take data (ram s) @ bs @ drop (data + unat len) (ram s) \<and>
      writes_to SPI_DATA (trace s') =
        writes_to SPI_DATA (trace s) @ replicate (unat len) (spi, 0xFF) \<and>
      trace s' = trace s @
        concat (map (\<lambda>x. transfer_events io spi (latency (spis (hw s) spi)) 0xFF @
                      [Rd spi SPI_DATA x]) bs)) \<and>
    (xspi_get_packet io b m spi' data' len' t = (Returns (), t') \<longrightarrow>
       writes_to SPI_DATA (trace t') =
         writes_to SPI_DATA (trace t) @ replicate (unat len') (spi', 0xFF))"
proof -
  from assms(3) have mi: "miso (spis (hw s) spi) = Remote (bs @ [])"
    by simp
  from assms(4,5) have len: "unat len = length bs" and inb: "data + length bs \<le> length (ram s)"
    by simp_all
  from sim_get_packet [OF assms(1) len assms(2) mi inb] obtain s' where
    run: "xspi_get_packet io (sim_bus io) n spi data len s = (Returns (), s')"
    and t': "trace s' = trace s @
        concat (map (\<lambda>x. transfer_events io spi (latency (spis (hw s) spi)) 0xFF @
                      [Rd spi SPI_DATA x]) bs)"
    and m': "ram s' = take data (ram s) @ bs @ drop (data + length bs) (ram s)"
    by blast
  from inb have "take (length bs) (drop data (ram s')) = bs"
    by (simp add: m')
  moreover have "writes_to SPI_DATA (trace t') =
      writes_to SPI_DATA (trace t) @ replicate (unat len') (spi', 0xFF)"
    if "xspi_get_packet io b m spi' data' len' t = (Returns (), t')"
    using get_packet_writes [OF refl that] .
  ultimately show ?thesis
    using run t' m' len by (simp add: writes_to_append writes_to_received)
qed

theorem get_packet_fills_buffer_witness:
  "SPI_IF_bm xmega_io \<noteq> 0 \<and>
   latency (spis (hw (idle_machine (Remote [0xDE, 0xAD]) [0, 0, 0])) 0x08C0) < 3 \<and>
   miso (spis (hw (idle_machine (Remote [0xDE, 0xAD]) [0, 0, 0])) 0x08C0) = Remote [0xDE, 0xAD] \<and>
   length [0xDE, 0xAD :: u8] = unat (2::u8) \<and>
   1 + unat (2::u8) \<le> length (ram (idle_machine (Remote [0xDE, 0xAD]) [0, 0, 0])) \<and>
   (\<exists>s'. xspi_get_packet xmega_io (sim_bus xmega_io) 3 0x08C0 1 2
            (idle_machine (Remote [0xDE, 0xAD]) [0, 0, 0]) = (Returns (), s') \<and>
         ram s' = [0, 0xDE, 0xAD] \<and>
         writes_to SPI_DATA (trace s') = [(0x08C0, 0xFF), (0x08C0, 0xFF)])"
proof -
  let ?s = "idle_machine (Remote [0xDE, 0xAD]) [0, 0, 0]"
  have h: "SPI_IF_bm xmega_io \<noteq> 0" "latency (spis (hw ?s) 0x08C0) < 3"
    "miso (spis (hw ?s) 0x08C0) = Remote [0xDE, 0xAD]"
    "length [0xDE, 0xAD :: u8] = unat (2::u8)"
    "1 + unat (2::u8) \<le> length (ram ?s)"
    by (simp_all add: xmega_io_def idle_machine_def idle_sim_def idle_shifter_def)
  have l: "trace ?s = []" "ram ?s = [0, 0, 0]"
    by (simp_all add: idle_machine_def)
  from get_packet_fills_buffer [OF h, where b = null_bus and m = 3 and spi' = "0x08C0"
      and data' = 0 and t = "\<lparr>hw = (), ram = [], trace = []\<rparr>" and len' = 0
      and t' = "\<lparr>hw = (), ram = [], trace = []\<rparr>"] h
  show ?thesis
    by (auto simp: l numeral_2_eq_2)
qed

section \<open>Transfers on the simulated USART\<close>

lemma spin_detects:
  "spin_until_set b p r m n s = (True, s') \<Longrightarrow>
     \<exists>tr x. trace s' = tr @ [Rd p r x] \<and> x AND m \<noteq> 0"
proof (induction n arbitrary: s)
  case 0
  then show ?case by simp
next
  case (Suc n)
  obtain v s1 where r: "reg_read b p r s = (v, s1)"
    by (cases "reg_read b p r s")
  then have t1: "trace s1 = trace s @ [Rd p r v]"
    by (auto simp: reg_read_def split: prod.splits)
  show ?case
  proof (cases "v AND m = 0")
    case True
    with Suc.prems r have "spin_until_set b p r m n s1 = (True, s')"
      by simp
    then show ?thesis
      by (rule Suc.IH)
  next
    case False
    with Suc.prems r have "s' = s1"
      by simp
    with False t1 show ?thesis
      by blast
  qed
qed

lemma sim_usart_status_read:
  "reg_read (sim_bus io) p USART_STATUS s = (v, s') \<Longrightarrow>
     v = (if flag (usarts (hw s') p) then USART_TXCIF_bm io else 0) OR
         (if shifting (usarts (hw s') p) = None then USART_DREIF_bm io else 0) \<and>
     usarts (hw s') p = poll (usarts (hw s) p) \<and>
     trace s' = trace s @ [Rd p USART_STATUS v] \<and> ram s' = ram s"
  by (auto simp: reg_read_def sim_bus_def Let_def simp del: poll.simps)

lemma poll_keeps_settled:
  "(flag u \<longrightarrow> shifting u = None) \<Longrightarrow> (flag (poll u) \<longrightarrow> shifting (poll u) = None)"
  by (auto split: option.splits nat.splits)

lemma sim_usart_spin_settled:
  "spin_until_set (sim_bus io) p USART_STATUS m n s = (True, s') \<Longrightarrow>
   (flag (usarts (hw s) p) \<longrightarrow> shifting (usarts (hw s) p) = None) \<Longrightarrow>
     (flag (usarts (hw s') p) \<longrightarrow> shifting (usarts (hw s') p) = None) \<and>
     ((if flag (usarts (hw s') p) then USART_TXCIF_bm io else 0) OR
      (if shifting (usarts (hw s') p) = None then USART_DREIF_bm io else 0)) AND m \<noteq> 0"
proof (induction n arbitrary: s)
  case 0
  then show ?case by simp
next
  case (Suc n)
  obtain v s1 where r: "reg_read (sim_bus io) p USART_STATUS s = (v, s1)"
    by (cases "reg_read (sim_bus io) p USART_STATUS s")
  note sr = sim_usart_status_read [OF r]
  from sr Suc.prems(2) have ok1: "flag (usarts (hw s1) p) \<longrightarrow> shifting (usarts (hw s1) p) = None"
    using poll_keeps_settled [of "usarts (hw s) p"] by simp
  show ?case
  proof (cases "v AND m = 0")
    case True
    with Suc.prems r have "spin_until_set (sim_bus io) p USART_STATUS m n s1 = (True, s')"
      by simp
    from Suc.IH [OF this ok1] show ?thesis .
  next
    case False
    with Suc.prems r have "s' = s1"
      by simp
    with False sr ok1 show ?thesis
      by simp
  qed
qed

lemma sim_usart_wait:
  assumes "USART_TXCIF_bm io \<noteq> 0"
  shows "shifting (usarts (hw s) p) = Some (k, x) \<Longrightarrow> \<not> flag (usarts (hw s) p) \<Longrightarrow> k < n \<Longrightarrow>
    \<exists>s'. spin_until_set (sim_bus io) p USART_STATUS (USART_TXCIF_bm io) n s = (True, s') \<and>
      trace s' = trace s @ replicate k (Rd p USART_STATUS 0) @
        [Rd p USART_STATUS (USART_TXCIF_bm io OR USART_DREIF_bm io)] \<and>
      ram s' = ram s \<and>
      usarts (hw s') p = (usarts (hw s) p)\<lparr>shifting := None, flag := True, rxbuf := x\<rparr>"
proof (induction k arbitrary: n s)
  case 0
  then obtain n' where n: "n = Suc n'" by (cases n) auto
  obtain v s1 where r: "reg_read (sim_bus io) p USART_STATUS s = (v, s1)"
    by (cases "reg_read (sim_bus io) p USART_STATUS s")
  have "(USART_TXCIF_bm io OR USART_DREIF_bm io) AND USART_TXCIF_bm io = USART_TXCIF_bm io"
    by (rule bit_word_eqI) (auto simp: bit_simps)
  with sim_usart_status_read [OF r] 0 assms show ?case
    by (simp add: n r)
next
  case (Suc k)
  then obtain n' where n: "n = Suc n'" by (cases n) auto
  obtain v s1 where r: "reg_read (sim_bus io) p USART_STATUS s = (v, s1)"
    by (cases "reg_read (sim_bus io) p USART_STATUS s")
  from sim_usart_status_read [OF r] Suc.prems
  have v: "v = 0" and s1: "usarts (hw s1) p = (usarts (hw s) p)\<lparr>shifting := Some (k, x)\<rparr>"
    and t1: "trace s1 = trace s @ [Rd p USART_STATUS 0]" and m1: "ram s1 = ram s"
    by simp_all
  from Suc.prems s1 n
  have "\<exists>s'. spin_until_set (sim_bus io) p USART_STATUS (USART_TXCIF_bm io) n' s1 = (True, s') \<and>
      trace s' = trace s1 @ replicate k (Rd p USART_STATUS 0) @
        [Rd p USART_STATUS (USART_TXCIF_bm io OR USART_DREIF_bm io)] \<and>
      ram s' = ram s1 \<and>
      usarts (hw s') p = (usarts (hw s1) p)\<lparr>shifting := None, flag := True, rxbuf := x\<rparr>"
    by (intro Suc.IH) simp_all
  then show ?case
    by (simp add: n r v s1 t1 m1)
qed

lemma usart_transfer_byte_returns:
  assumes "USART_TXCIF_bm io \<noteq> 0" and "\<not> flag (usarts (hw s) usart)"
    and "latency (usarts (hw s) usart) < n"
  shows "fst (xspi_usart_transfer_byte io (sim_bus io) n usart val s) =
           Returns (incoming (miso (usarts (hw s) usart)) val)"
proof -
  let ?s1 = "reg_write (sim_bus io) usart USART_DATA val s"
  let ?u = "usarts (hw s) usart"
  have u1: "usarts (hw ?s1) usart = start val ?u"
    by (simp add: reg_write_def sim_bus_def)
  have "shifting (usarts (hw ?s1) usart) = Some (latency ?u, incoming (miso ?u) val)"
    and "\<not> flag (usarts (hw ?s1) usart)"
    using assms(2) by (simp_all add: u1 start_def)
  from sim_usart_wait [OF assms(1) this assms(3)] obtain s2 where
    w: "spin_until_set (sim_bus io) usart USART_STATUS (USART_TXCIF_bm io) n ?s1 = (True, s2)"
    and u2: "usarts (hw s2) usart =
      (usarts (hw ?s1) usart)\<lparr>shifting := None, flag := True, rxbuf := incoming (miso ?u) val\<rparr>"
    by blast
  obtain v s3 where rd: "reg_read (sim_bus io) usart USART_DATA
      (reg_write (sim_bus io) usart USART_STATUS (USART_TXCIF_bm io) s2) = (v, s3)"
    by (cases "reg_read (sim_bus io) usart USART_DATA
      (reg_write (sim_bus io) usart USART_STATUS (USART_TXCIF_bm io) s2)")
  then have "v = rxbuf (usarts (hw s2) usart)"
    by (auto simp: reg_read_def reg_write_def sim_bus_def)
  then show ?thesis
    by (simp add: xspi_usart_transfer_byte_def w rd u2)
qed

subsection \<open>The transmit-complete flag\<close>

lemma transfer_byte_never_writes_status:
  "writes_to SPI_STATUS (trace (snd (xspi_transfer_byte io b n spi val s)))
     = writes_to SPI_STATUS (trace s)"
proof -
  let ?s1 = "reg_write b spi SPI_DATA val s"
  obtain ok s2 where sp: "spin_until_set b spi SPI_STATUS (SPI_IF_bm io) n ?s1 = (ok, s2)"
    by (cases "spin_until_set b spi SPI_STATUS (SPI_IF_bm io) n ?s1")
  have "writes_to SPI_STATUS (trace s2) = writes_to SPI_STATUS (trace ?s1)"
    using spin_writes_nothing [of SPI_STATUS b spi SPI_STATUS "SPI_IF_bm io" n ?s1]
    by (simp add: sp)
  also have "\<dots> = writes_to SPI_STATUS (trace s)"
    by (simp add: reg_write_def writes_to_append)
  finally show ?thesis
    by (cases ok)
      (auto simp: xspi_transfer_byte_def sp reg_read_def writes_to_append split: prod.splits)
qed

lemma usart_transfer_byte_steps:
  assumes "xspi_usart_transfer_byte io (sim_bus io) n usart val s = (Returns v, s')"
  obtains s2 where
    "spin_until_set (sim_bus io) usart USART_STATUS (USART_TXCIF_bm io) n
       (reg_write (sim_bus io) usart USART_DATA val s) = (True, s2)"
    and "reg_read (sim_bus io) usart USART_DATA
       (reg_write (sim_bus io) usart USART_STATUS (USART_TXCIF_bm io) s2) = (v, s')"
proof -
  let ?s1 = "reg_write (sim_bus io) usart USART_DATA val s"
  let ?m = "USART_TXCIF_bm io"
  obtain ok s2 where sp: "spin_until_set (sim_bus io) usart USART_STATUS ?m n ?s1 = (ok, s2)"
    by (cases "spin_until_set (sim_bus io) usart USART_STATUS ?m n ?s1")
  with assms have ok: "ok"
    by (cases ok) (simp_all add: xspi_usart_transfer_byte_def)
  from assms sp ok have "reg_read (sim_bus io) usart USART_DATA
      (reg_write (sim_bus io) usart USART_STATUS ?m s2) = (v, s')"
    by (simp add: xspi_usart_transfer_byte_def split: prod.splits)
  with sp ok that show thesis
    by simp
qed

lemma usart_transfer_byte_detects_then_clears:
  assumes "xspi_usart_transfer_byte io (sim_bus io) n usart val s = (Returns v, s')"
  shows "\<exists>tr x. trace s' = tr @ [Rd usart USART_STATUS x,
        Wr usart USART_STATUS (USART_TXCIF_bm io), Rd usart USART_DATA v] \<and>
       x AND USART_TXCIF_bm io \<noteq> 0"
proof -
  let ?m = "USART_TXCIF_bm io"
  from assms obtain s2 where
    sp: "spin_until_set (sim_bus io) usart USART_STATUS ?m n
       (reg_write (sim_bus io) usart USART_DATA val s) = (True, s2)"
    and rd: "reg_read (sim_bus io) usart USART_DATA
       (reg_write (sim_bus io) usart USART_STATUS ?m s2) = (v, s')"
    by (rule usart_transfer_byte_steps)
  from spin_detects [OF sp] obtain tr x where
    t2: "trace s2 = tr @ [Rd usart USART_STATUS x]" and x: "x AND ?m \<noteq> 0"
    by blast
  from rd have "trace s' = trace s2 @ [Wr usart USART_STATUS ?m, Rd usart USART_DATA v]"
    by (auto simp: reg_read_def reg_write_def sim_bus_def)
  with t2 x show ?thesis
    by auto
qed

lemma usart_transfer_byte_settles:
  assumes "xspi_usart_transfer_byte io (sim_bus io) n usart val s = (Returns v, s')"
    and nf: "\<not> flag (usarts (hw s) usart)"
    and dj: "USART_TXCIF_bm io AND USART_DREIF_bm io = 0"
  shows "shifting (usarts (hw s') usart) = None \<and> \<not> flag (usarts (hw s') usart) \<and>
    fst (reg_read (sim_bus io) usart USART_STATUS s') AND USART_TXCIF_bm io = 0"
proof -
  let ?s1 = "reg_write (sim_bus io) usart USART_DATA val s"
  let ?m = "USART_TXCIF_bm io"
  from assms(1) obtain s2 where
    sp: "spin_until_set (sim_bus io) usart USART_STATUS ?m n ?s1 = (True, s2)"
    and rd: "reg_read (sim_bus io) usart USART_DATA
       (reg_write (sim_bus io) usart USART_STATUS ?m s2) = (v, s')"
    by (rule usart_transfer_byte_steps)
  let ?s3 = "reg_write (sim_bus io) usart USART_STATUS ?m s2"
  from spin_detects [OF sp] have mz: "?m \<noteq> 0"
    by auto
  have u3: "usarts (hw ?s3) usart = (usarts (hw s2) usart)\<lparr>flag := False\<rparr>"
    using mz by (simp add: reg_write_def sim_bus_def)
  from rd have u': "usarts (hw s') usart = usarts (hw ?s3) usart"
    by (auto simp: reg_read_def sim_bus_def)
  have "flag (usarts (hw ?s1) usart) \<longrightarrow> shifting (usarts (hw ?s1) usart) = None"
    using nf by (simp add: reg_write_def sim_bus_def start_def)
  from sim_usart_spin_settled [OF sp this]
  have st: "flag (usarts (hw s2) usart) \<longrightarrow> shifting (usarts (hw s2) usart) = None"
    and y: "((if flag (usarts (hw s2) usart) then ?m else 0) OR
      (if shifting (usarts (hw s2) usart) = None then USART_DREIF_bm io else 0)) AND ?m \<noteq> 0"
    by simp_all
  have dj': "USART_DREIF_bm io AND ?m = 0"
    using dj by (simp add: and.commute)
  have "flag (usarts (hw s2) usart)"
    using y dj' by (auto split: if_splits)
  with st have idle: "shifting (usarts (hw s2) usart) = None"
    by simp
  obtain z s4 where r4: "reg_read (sim_bus io) usart USART_STATUS s' = (z, s4)"
    by (cases "reg_read (sim_bus io) usart USART_STATUS s'")
  from sim_usart_status_read [OF r4] have "z = USART_DREIF_bm io"
    by (simp add: u' u3 idle)
  with dj' show ?thesis
    by (simp add: r4 u' u3 idle)
qed

text \<open>
  C6, as the code has it. Whenever \<open>xspi_usart_transfer_byte\<close> returns on the simulated
  USART, its last three accesses are the read of the status register that shows the
  transmit-complete flag, the write of the flag's bit to the status register, and the read
  of the data register. When the flag was clear at the call (and the two flags of the
  status register are different bits), nothing is being shifted when the call returns and
  the flag reads as cleared: the next read of the status register shows it clear, and so
  does every later one until the data register is written again. Such a call, given more
  polls than the transfer takes, does return, with the byte shifted in.
  \<open>xspi_transfer_byte\<close>, on every hardware and for every number of polls, writes nothing
  to the status register.
\<close>

theorem usart_transfer_byte_clears_flag:
  "(xspi_usart_transfer_byte io (sim_bus io) n usart val s = (Returns v, s') \<longrightarrow>
      (\<exists>tr x. trace s' = tr @ [Rd usart USART_STATUS x,
          Wr usart USART_STATUS (USART_TXCIF_bm io), Rd usart USART_DATA v] \<and>
         x AND USART_TXCIF_bm io \<noteq> 0) \<and>
      (\<not> flag (usarts (hw s) usart) \<and> USART_TXCIF_bm io AND USART_DREIF_bm io = 0 \<longrightarrow>
         shifting (usarts (hw s') usart) = None \<and> \<not> flag (usarts (hw s') usart) \<and>
         fst (reg_read (sim_bus io) usart USART_STATUS s') AND USART_TXCIF_bm io = 0)) \<and>
   (USART_TXCIF_bm io \<noteq> 0 \<and> \<not> flag (usarts (hw s) usart) \<and>
    latency (usarts (hw s) usart) < n \<longrightarrow>
      fst (xspi_usart_transfer_byte io (sim_bus io) n usart val s) =
        Returns (incoming (miso (usarts (hw s) usart)) val)) \<and>
   writes_to SPI_STATUS (trace (snd (xspi_transfer_byte io b m spi w t)))
     = writes_to SPI_STATUS (trace t)"
  using usart_transfer_byte_detects_then_clears [of io n usart val s v s']
    usart_transfer_byte_settles [of io n usart val s v s']
    usart_transfer_byte_returns [of io s usart n val]
    transfer_byte_never_writes_status [of io b m spi w t]
  by blast

theorem usart_transfer_byte_clears_flag_witness:
  "xspi_usart_transfer_byte xmega_io (sim_bus xmega_io) 3 0x08A0 0xA5 (idle_machine Loopback [])
     = (Returns 0xA5,
        snd (xspi_usart_transfer_byte xmega_io (sim_bus xmega_io) 3 0x08A0 0xA5
               (idle_machine Loopback []))) \<and>
   \<not> flag (usarts (hw (idle_machine Loopback [])) 0x08A0) \<and>
   USART_TXCIF_bm xmega_io AND USART_DREIF_bm xmega_io = 0 \<and>
   latency (usarts (hw (idle_machine Loopback [])) 0x08A0) < 3 \<and>
   fst (reg_read (sim_bus xmega_io) 0x08A0 USART_STATUS
          (snd (xspi_usart_transfer_byte xmega_io (sim_bus xmega_io) 3 0x08A0 0xA5
                  (idle_machine Loopback [])))) AND USART_TXCIF_bm xmega_io = 0"
proof -
  let ?s = "idle_machine Loopback []"
  let ?call = "xspi_usart_transfer_byte xmega_io (sim_bus xmega_io) 3 0x08A0 0xA5 ?s"
  have i: "USART_TXCIF_bm xmega_io \<noteq> 0" "\<not> flag (usarts (hw ?s) 0x08A0)"
    "latency (usarts (hw ?s) 0x08A0) < 3"
    "USART_TXCIF_bm xmega_io AND USART_DREIF_bm xmega_io = 0"
    by (simp_all add: xmega_io_def idle_machine_def idle_sim_def idle_shifter_def)
  have l: "incoming (miso (usarts (hw ?s) 0x08A0)) 0xA5 = 0xA5"
    by (simp add: idle_machine_def idle_sim_def idle_shifter_def)
  note th = usart_transfer_byte_clears_flag [where io = xmega_io and n = 3 and usart = "0x08A0"
      and val = "0xA5" and s = ?s and v = "0xA5" and s' = "snd ?call" and b = null_bus
      and m = 0 and spi = 0 and w = 0 and t = "\<lparr>hw = (), ram = [], trace = []\<rparr>"]
  from th i have "fst ?call = Returns 0xA5"
    by (simp add: l)
  then have h: "?call = (Returns 0xA5, snd ?call)"
    by (simp add: prod_eq_iff)
  from th h i show ?thesis
    by blast
qed

text \<open>
  Without the premise that the flag was clear at the call, the flag need not read as
  cleared after the call. \<open>xspi_usart_send_packet\<close> never clears the flag: after it has
  sent two bytes, the flag of the first is set while the second is still being shifted.
  The next \<open>xspi_usart_transfer_byte\<close> starts its own transfer, sees the old flag at its
  first poll, clears it and returns (with the byte of the first transfer); its own
  transfer completes afterwards and sets the flag again, which the next read of the status
  register shows.
\<close>

theorem usart_transfer_byte_stale_flag_counterexample:
  "fst (xspi_usart_send_packet xmega_io (sim_bus xmega_io) 3 0x08A0 0 2
          (quick_machine [0x66, 0x77])) = Returns () \<and>
   fst (xspi_usart_transfer_byte xmega_io (sim_bus xmega_io) 3 0x08A0 0xA5 after_send)
     = Returns 0x66 \<and>
   fst (reg_read (sim_bus xmega_io) 0x08A0 USART_STATUS
          (snd (xspi_usart_transfer_byte xmega_io (sim_bus xmega_io) 3 0x08A0 0xA5
                  after_send))) = 0x60 \<and>
   (0x60 :: u8) AND USART_TXCIF_bm xmega_io \<noteq> 0"
  by (simp add: xspi_usart_send_packet.simps xspi_usart_send_byte_def numeral_3_eq_3
      reg_read_def reg_write_def sim_bus_def quick_machine_def idle_sim_def idle_shifter_def
      xmega_io_def start_def Let_def xspi_usart_transfer_byte_def after_send_def)

end
